theory Spec2Isabelle
  imports Complex_Main "HOL-Library.Log_Nat"
begin

section \<open>Python values used by \<open>lance/util.py\<close>\<close>

text \<open>
  Exceptions are values.  \<open>ValueError\<close> carries the message the source formats;
  \<open>ArrowInvalid\<close> is the error pyarrow raises from its own constructors, and
  \<open>CollaboratorError\<close> stands for any failure surfaced by the dataset or the native
  engine, which \<open>util.py\<close> never catches.
\<close>

datatype py_error =
    ValueError string
  | ZeroDivisionError
  | IndexError
  | KeyError string
  | OverflowError
  | ArrowInvalid string
  | CollaboratorError string

subsection \<open>Strings\<close>

text \<open>
  Strings are ASCII character lists.  \<open>str.lower()\<close> maps \<open>A..Z\<close> to \<open>a..z\<close> and leaves
  every other character alone.
\<close>

definition lower_char :: "char \<Rightarrow> char" where
  "lower_char c =
     (let n = (of_char c :: nat) in if 65 \<le> n \<and> n \<le> 90 then char_of (n + 32) else c)"

definition str_lower :: "string \<Rightarrow> string" where
  "str_lower s = map lower_char s"

definition digit_char :: "nat \<Rightarrow> char" where
  "digit_char d = char_of (48 + d)"

fun str_nat :: "nat \<Rightarrow> string" where
  "str_nat n = (if n < 10 then [digit_char n] else str_nat (n div 10) @ [digit_char (n mod 10)])"

declare str_nat.simps [simp del]

definition str_int :: "int \<Rightarrow> string" where
  "str_int i = (if i < 0 then ''-'' @ str_nat (nat (- i)) else str_nat (nat i))"

section \<open>Metric names\<close>

text \<open>
  \<^verbatim>\<open>
  def _normalize_metric_type(metric_type: str) -> MetricType:
      normalized = metric_type.lower()
      if normalized == "euclidean":
          normalized = "l2"
      if normalized not in {"l2", "dot", "cosine"}:
          raise ValueError(f"Invalid metric_type: {metric_type}")
      return cast("MetricType", normalized)
  \<close>
\<close>

definition normalize_metric_type :: "string \<Rightarrow> py_error + string" where
  "normalize_metric_type metric_type =
     (let normalized = str_lower metric_type;
          normalized = (if normalized = ''euclidean'' then ''l2'' else normalized)
      in if normalized \<notin> {''l2'', ''dot'', ''cosine''}
         then Inl (ValueError (''Invalid metric_type: '' @ metric_type))
         else Inr normalized)"

text \<open>
  \<open>KMeans.__init__\<close> normalises the metric first and only then constructs the native
  model \<open>_KMeans(k, metric_type, max_iters=max_iters, centroids_arr=centroids)\<close>.  The
  native constructor is a parameter; the second component of the result is the list of
  argument tuples it was called with.
\<close>

record 'h KMeans =
  kmeans_k :: int
  kmeans_metric_type :: string
  kmeans_native :: 'h

type_synonym 'c native_args = "int \<times> string \<times> int \<times> 'c option"

definition KMeans_init ::
  "('c native_args \<Rightarrow> py_error + 'h) \<Rightarrow> int \<Rightarrow> string \<Rightarrow> int \<Rightarrow> 'c option
     \<Rightarrow> (py_error + 'h KMeans) \<times> 'c native_args list" where
  "KMeans_init native_KMeans k_arg metric_type max_iters centroids =
     (case normalize_metric_type metric_type of
        Inl e \<Rightarrow> (Inl e, [])
      | Inr metric \<Rightarrow>
          (let args = (k_arg, metric, max_iters, centroids) in
           case native_KMeans args of
             Inl e \<Rightarrow> (Inl e, [args])
           | Inr h \<Rightarrow>
               (Inr \<lparr>kmeans_k = k_arg, kmeans_metric_type = metric, kmeans_native = h\<rparr>, [args])))"

section \<open>Floating-point values\<close>

text \<open>
  A Python or numpy float is its exact rational value, an infinity, or not-a-number.
  Comparisons and \<open>abs\<close> are exact in IEEE arithmetic; a comparison with a NaN operand
  is false.
\<close>

datatype pyfloat = Finite rat | PosInf | NegInf | NaN

fun isnan :: "pyfloat \<Rightarrow> bool" where
  "isnan NaN = True"
| "isnan _ = False"

fun float_abs :: "pyfloat \<Rightarrow> pyfloat" where
  "float_abs (Finite x) = Finite \<bar>x\<bar>"
| "float_abs PosInf = PosInf"
| "float_abs NegInf = PosInf"
| "float_abs NaN = NaN"

fun float_lt :: "pyfloat \<Rightarrow> pyfloat \<Rightarrow> bool" where
  "float_lt NaN _ = False"
| "float_lt _ NaN = False"
| "float_lt (Finite x) (Finite y) = (x < y)"
| "float_lt (Finite x) PosInf = True"
| "float_lt (Finite x) NegInf = False"
| "float_lt NegInf (Finite y) = True"
| "float_lt NegInf PosInf = True"
| "float_lt NegInf NegInf = False"
| "float_lt PosInf _ = False"

text \<open>
  Rounding a rational to the nearest binary64 value, ties to even: this is what a float
  literal denotes and what \<open>int / int\<close> returns.  \<open>ilog2 q\<close> is the exponent \<open>e\<close> with
  \<open>2^e \<le> q < 2^(e+1)\<close> for positive \<open>q\<close>; below \<open>2^-1022\<close> the spacing stays that of the
  subnormal numbers.
\<close>

definition round_half_even :: "rat \<Rightarrow> int" where
  "round_half_even x =
     (let f = \<lfloor>x\<rfloor>; d = x - of_int f
      in if d < 1 / 2 then f else if 1 / 2 < d then f + 1 else if even f then f else f + 1)"

definition ilog2 :: "rat \<Rightarrow> int" where
  "ilog2 q =
     (let e0 = bitlen (fst (quotient_of q)) - bitlen (snd (quotient_of q))
      in if 2 powi e0 \<le> q then e0 else e0 - 1)"

definition round_double :: "rat \<Rightarrow> rat" where
  "round_double q =
     (if q = 0 then 0
      else let e = max (ilog2 \<bar>q\<bar>) (- 1022); ulp = 2 powi (e - 52)
           in sgn q * of_int (round_half_even (\<bar>q\<bar> / ulp)) * ulp)"

definition float_literal :: "rat \<Rightarrow> pyfloat" where
  "float_literal q = Finite (round_double q)"

text \<open>
  True division of two Python integers: \<open>ZeroDivisionError\<close> on a zero divisor,
  \<open>OverflowError\<close> when the rounded quotient is beyond the largest double, the
  correctly rounded quotient otherwise.
\<close>

definition py_truediv :: "int \<Rightarrow> int \<Rightarrow> py_error + pyfloat" where
  "py_truediv a b =
     (if b = 0 then Inl ZeroDivisionError
      else let r = round_double (of_int a / of_int b)
           in if 2 ^ 1024 \<le> \<bar>r\<bar> then Inl OverflowError else Inr (Finite r))"

section \<open>The vector array normalizer\<close>

text \<open>
  An element type is \<open>float32\<close> or some other type, known by its printed name (the only
  thing the source does with it is to format it into a message).
\<close>

datatype elem_type = Float32 | OtherType string

text \<open>
  A \<open>pa.FixedSizeListArray\<close>: the value type, the list width, the number of lists and
  the child values in order.  A \<open>pa.FixedShapeTensorArray\<close>: the per-row shape of its
  tensor type and its storage, which Arrow fixes to be a fixed-size list array.  A
  \<open>np.ndarray\<close>: its shape, its dtype and its elements in row-major (C) order, the
  order in which \<open>reshape((-1,))\<close> lays them out.
\<close>

record fsl_array =
  fsl_value_type :: elem_type
  fsl_list_size :: nat
  fsl_length :: nat
  fsl_values :: "pyfloat list"

record tensor_array =
  tensor_shape :: "nat list"
  tensor_storage :: fsl_array

record ndarray =
  nd_shape :: "nat list"
  nd_dtype :: elem_type
  nd_data :: "pyfloat list"

datatype py_data =
    FixedSizeListArray fsl_array
  | FixedShapeTensorArray tensor_array
  | NdArray ndarray
  | OtherObject string

text \<open>
  \<open>pa.FixedSizeListArray.from_arrays(values, list_size)\<close> on a float32 child array.
  Arrow refuses a list size that is not strictly positive and a child length that is not
  a multiple of the list size (\<open>Status::Invalid\<close>, raised as \<open>ArrowInvalid\<close>); otherwise
  the array has \<open>length values div list_size\<close> lists.
\<close>

definition from_arrays :: "pyfloat list \<Rightarrow> nat \<Rightarrow> py_error + fsl_array" where
  "from_arrays vals list_size =
     (if list_size = 0
      then Inl (ArrowInvalid ''list_size needs to be a strict positive integer'')
      else if length vals mod list_size \<noteq> 0
      then Inl (ArrowInvalid
             ''The length of the values Array needs to be a multiple of the list_size'')
      else Inr \<lparr>fsl_value_type = Float32, fsl_list_size = list_size,
                fsl_length = length vals div list_size, fsl_values = vals\<rparr>)"

text \<open>
  \<^verbatim>\<open>
  def _to_fixed_size_list(self, data: pa.Array) -> pa.FixedSizeListArray:
      if isinstance(data, pa.FixedSizeListArray):
          if data.type.value_type != pa.float32():
              raise ValueError(
                  f"Array must be float32 type, got: {data.type.value_type}"
              )
          return data
      elif isinstance(data, pa.FixedShapeTensorArray):
          if len(data.type.shape) != 1:
              raise ValueError(
                  f"Fixed shape tensor array must be a 1-D array, "
                  f"got {len(data.type.shape)}-D"
              )
          return self._to_fixed_size_list(data.storage)
      elif _check_for_numpy(data) and isinstance(data, np.ndarray):
          if len(data.shape) != 2:
              raise ValueError(
                  f"Numpy array must be a 2-D array, got {len(data.shape)}-D"
              )
          elif data.dtype != np.float32:
              raise ValueError(f"Numpy array must be float32 type, got: {data.dtype}")

          inner_arr = pa.array(data.reshape((-1,)), type=pa.float32())
          return pa.FixedSizeListArray.from_arrays(inner_arr, data.shape[1])
      else:
          raise ValueError("Data must be a FixedSizeListArray, Tensor or numpy array")
  \<close>
  The five \<open>raise\<close> statements, in the order of the source:
\<close>

definition fsl_type_error :: "string \<Rightarrow> py_error" where
  "fsl_type_error tname = ValueError (''Array must be float32 type, got: '' @ tname)"

definition tensor_shape_error :: "nat \<Rightarrow> py_error" where
  "tensor_shape_error rank =
     ValueError (''Fixed shape tensor array must be a 1-D array, got '' @ str_nat rank @ ''-D'')"

definition numpy_shape_error :: "nat \<Rightarrow> py_error" where
  "numpy_shape_error rank =
     ValueError (''Numpy array must be a 2-D array, got '' @ str_nat rank @ ''-D'')"

definition numpy_type_error :: "string \<Rightarrow> py_error" where
  "numpy_type_error tname = ValueError (''Numpy array must be float32 type, got: '' @ tname)"

definition unsupported_error :: py_error where
  "unsupported_error = ValueError ''Data must be a FixedSizeListArray, Tensor or numpy array''"

function to_fixed_size_list :: "py_data \<Rightarrow> py_error + fsl_array" where
  "to_fixed_size_list (FixedSizeListArray a) =
     (case fsl_value_type a of
        OtherType tname \<Rightarrow> Inl (fsl_type_error tname)
      | Float32 \<Rightarrow> Inr a)"
| "to_fixed_size_list (FixedShapeTensorArray t) =
     (if length (tensor_shape t) \<noteq> 1
      then Inl (tensor_shape_error (length (tensor_shape t)))
      else to_fixed_size_list (FixedSizeListArray (tensor_storage t)))"
| "to_fixed_size_list (NdArray d) =
     (if length (nd_shape d) \<noteq> 2
      then Inl (numpy_shape_error (length (nd_shape d)))
      else case nd_dtype d of
        OtherType tname \<Rightarrow> Inl (numpy_type_error tname)
      | Float32 \<Rightarrow> from_arrays (nd_data d) (nd_shape d ! 1))"
| "to_fixed_size_list (OtherObject _) = Inl unsupported_error"
  by pat_completeness auto
termination
  by (relation "measure (\<lambda>d. case d of FixedShapeTensorArray _ \<Rightarrow> 1 | _ \<Rightarrow> 0)") auto

text \<open>
  The three representations of one logical batch of \<open>float32\<close> rows, each row of width
  \<open>D\<close>: the fixed-size list array, the rank-1 tensor array wrapping it, and the 2-D numpy
  array.
\<close>

definition batch_fsl :: "nat \<Rightarrow> pyfloat list list \<Rightarrow> fsl_array" where
  "batch_fsl D rows =
     \<lparr>fsl_value_type = Float32, fsl_list_size = D, fsl_length = length rows,
      fsl_values = concat rows\<rparr>"

definition batch_tensor :: "nat \<Rightarrow> pyfloat list list \<Rightarrow> tensor_array" where
  "batch_tensor D rows = \<lparr>tensor_shape = [D], tensor_storage = batch_fsl D rows\<rparr>"

definition batch_ndarray :: "nat \<Rightarrow> pyfloat list list \<Rightarrow> ndarray" where
  "batch_ndarray D rows =
     \<lparr>nd_shape = [length rows, D], nd_dtype = Float32, nd_data = concat rows\<rparr>"

definition is_batch :: "nat \<Rightarrow> pyfloat list list \<Rightarrow> bool" where
  "is_batch D rows = list_all (\<lambda>r. length r = D) rows"

section \<open>The index recall validator\<close>

text \<open>
  A vector is a list of floats; a table maps a column name to its rows, and indexing it
  with a missing name raises \<open>KeyError\<close>.  The dataset is the external collaborator:
  \<open>ds_to_table\<close> is \<open>dataset.to_table()\<close>, \<open>ds_sample n\<close> is \<open>dataset.sample(n)\<close> (whatever rows
  the draw gave), and \<open>ds_nearest\<close> is
  \<open>dataset.to_table(nearest=...)["_distance"].to_pylist()\<close>, which may fail.
\<close>

type_synonym vec = "pyfloat list"

type_synonym table = "string \<Rightarrow> vec list option"

record nearest =
  nn_column :: string
  nn_q :: vec
  nn_k :: int
  nn_nprobes :: int
  nn_refine_factor :: int

record dataset =
  ds_to_table :: table
  ds_sample :: "int \<Rightarrow> table"
  ds_nearest :: "nearest \<Rightarrow> py_error + pyfloat list"

definition has_nan :: "vec \<Rightarrow> bool" where
  \<comment> \<open>\<open>np.isnan(vec).any()\<close>\<close>
  "has_nan v = list_ex isnan v"

definition nearest_query :: "string \<Rightarrow> vec \<Rightarrow> int \<Rightarrow> nearest" where
  "nearest_query col v refine_factor =
     \<lparr>nn_column = col, nn_q = v, nn_k = 1, nn_nprobes = 1, nn_refine_factor = refine_factor\<rparr>"

definition top1_distance :: "dataset \<Rightarrow> string \<Rightarrow> int \<Rightarrow> vec \<Rightarrow> py_error + pyfloat" where
  \<comment> \<open>\<open>dataset.to_table(nearest={...})["_distance"].to_pylist()[0]\<close>\<close>
  "top1_distance ds col refine_factor v =
     (case ds_nearest ds (nearest_query col v refine_factor) of
        Inl e \<Rightarrow> Inl e
      | Inr dists \<Rightarrow> (case dists of [] \<Rightarrow> Inl IndexError | distance # _ \<Rightarrow> Inr distance))"

definition epsilon :: pyfloat where
  \<comment> \<open>the literal \<open>1e-6\<close>\<close>
  "epsilon = float_literal (1 / 1000000)"

text \<open>
  \<^verbatim>\<open>
  for vec in vecs:
      if np.isnan(vec).any():
          total -= 1
          continue
      distance = dataset.to_table(nearest={...})["_distance"].to_pylist()[0]
      passes += 1 if abs(distance) < 1e-6 else 0
  \<close>
  The loop carries \<open>passes\<close>, \<open>total\<close> (written \<open>tot\<close>) and the list of nearest-neighbour queries issued so
  far; an exception leaves the loop with the queries issued up to it.
\<close>

fun validate_loop ::
  "dataset \<Rightarrow> string \<Rightarrow> int \<Rightarrow> vec list \<Rightarrow> int \<Rightarrow> int \<Rightarrow> nearest list
     \<Rightarrow> (py_error + int \<times> int) \<times> nearest list" where
  "validate_loop ds col refine_factor [] passes tot qs = (Inr (passes, tot), qs)"
| "validate_loop ds col refine_factor (v # vecs) passes tot qs =
     (if has_nan v then validate_loop ds col refine_factor vecs passes (tot - 1) qs
      else case top1_distance ds col refine_factor v of
        Inl e \<Rightarrow> (Inl e, qs @ [nearest_query col v refine_factor])
      | Inr distance \<Rightarrow>
          validate_loop ds col refine_factor vecs
            (passes + (if float_lt (float_abs distance) epsilon then 1 else 0)) tot
            (qs @ [nearest_query col v refine_factor]))"

definition sanity_check_error :: "int \<Rightarrow> int \<Rightarrow> py_error" where
  "sanity_check_error passes tot =
     ValueError (''Vector index failed sanity check, only '' @ str_int passes @ ''/''
                 @ str_int tot @ '' passed'')"

text \<open>
  \<^verbatim>\<open>
  data = dataset.to_table() if sample_size is None else dataset.sample(sample_size)
  vecs = data[column].to_numpy(zero_copy_only=False)
  passes = 0
  total = len(vecs)
  for vec in vecs: ...
  if passes / total < pass_threshold:
      raise ValueError(
          f"Vector index failed sanity check, only {passes}/{total} passed"
      )
  \<close>
  The result is the outcome (an exception, or \<open>()\<close> for Python's \<open>None\<close>) and the queries
  issued.
\<close>

definition validate_vector_index ::
  "dataset \<Rightarrow> string \<Rightarrow> int \<Rightarrow> int option \<Rightarrow> pyfloat \<Rightarrow> (py_error + unit) \<times> nearest list" where
  "validate_vector_index ds col refine_factor sample_size pass_threshold =
     (let data = (case sample_size of None \<Rightarrow> ds_to_table ds | Some n \<Rightarrow> ds_sample ds n)
      in case data col of
        None \<Rightarrow> (Inl (KeyError col), [])
      | Some vecs \<Rightarrow>
          (case validate_loop ds col refine_factor vecs 0 (int (length vecs)) [] of
             (Inl e, qs) \<Rightarrow> (Inl e, qs)
           | (Inr (passes, tot), qs) \<Rightarrow>
               (case py_truediv passes tot of
                  Inl e \<Rightarrow> (Inl e, qs)
                | Inr rate \<Rightarrow>
                    if float_lt rate pass_threshold
                    then (Inl (sanity_check_error passes tot), qs)
                    else (Inr (), qs))))"

text \<open>
  For stating what a run counts: a row passes when its top-1 distance is below the
  epsilon in absolute value, and a run is answered when every row without a NaN element
  gets a query result with at least one entry.
\<close>

definition row_passes :: "dataset \<Rightarrow> string \<Rightarrow> int \<Rightarrow> vec \<Rightarrow> bool" where
  "row_passes ds col refine_factor v =
     (case top1_distance ds col refine_factor v of
        Inl _ \<Rightarrow> False
      | Inr distance \<Rightarrow> float_lt (float_abs distance) epsilon)"

definition answered :: "dataset \<Rightarrow> string \<Rightarrow> int \<Rightarrow> vec list \<Rightarrow> bool" where
  "answered ds col refine_factor vecs =
     list_all (\<lambda>v. has_nan v \<or> \<not> isl (top1_distance ds col refine_factor v)) vecs"

definition column_rows :: "dataset \<Rightarrow> int option \<Rightarrow> string \<Rightarrow> vec list option" where
  \<comment> \<open>\<open>data[column]\<close> for the table the run reads\<close>
  "column_rows ds sample_size col =
     (case sample_size of None \<Rightarrow> ds_to_table ds | Some n \<Rightarrow> ds_sample ds n) col"

text \<open>The dataset a run would see had the rows with a NaN element never been in it.\<close>

definition drop_nan_rows :: "table \<Rightarrow> table" where
  "drop_nan_rows t = (\<lambda>c. map_option (filter (\<lambda>v. \<not> has_nan v)) (t c))"

definition without_nan_rows :: "dataset \<Rightarrow> dataset" where
  "without_nan_rows ds =
     ds\<lparr>ds_to_table := drop_nan_rows (ds_to_table ds),
        ds_sample := (\<lambda>n. drop_nan_rows (ds_sample ds n))\<rparr>"

subsection \<open>Example datasets\<close>

text \<open>
  Three small datasets with a column \<open>vector\<close>: one whose index finds the second row at
  distance 0 and the third at distance 1, one whose rows all hold a NaN, and one whose
  index returns no result at all.
\<close>

definition example_rows :: "vec list" where
  "example_rows = [[NaN, Finite 1], [Finite (1 / 2), Finite 2], [Finite 3, Finite 3]]"

definition example_dataset :: dataset where
  "example_dataset =
     \<lparr>ds_to_table = [''vector'' \<mapsto> example_rows],
      ds_sample = (\<lambda>n. [''vector'' \<mapsto> take (nat n) example_rows]),
      ds_nearest = (\<lambda>nq. if nn_q nq = [Finite 3, Finite 3] then Inr [Finite 1, Finite 2]
                          else Inr [Finite 0])\<rparr>"

definition nan_rows :: "vec list" where
  "nan_rows = [[NaN, Finite 1], [Finite (1 / 2), NaN]]"

definition nan_dataset :: dataset where
  "nan_dataset =
     \<lparr>ds_to_table = [''vector'' \<mapsto> nan_rows],
      ds_sample = (\<lambda>n. [''vector'' \<mapsto> take (nat n) nan_rows]),
      ds_nearest = (\<lambda>nq. Inr [Finite 0])\<rparr>"

definition silent_dataset :: dataset where
  "silent_dataset =
     \<lparr>ds_to_table = [''vector'' \<mapsto> example_rows],
      ds_sample = (\<lambda>n. [''vector'' \<mapsto> take (nat n) example_rows]),
      ds_nearest = (\<lambda>nq. Inr [])\<rparr>"

section \<open>Properties of the metric normalizer\<close>

lemma normalize_metric_type_eq:
  "normalize_metric_type s =
     (if str_lower s = ''euclidean'' \<or> str_lower s = ''l2'' then Inr ''l2''
      else if str_lower s = ''dot'' \<or> str_lower s = ''cosine'' then Inr (str_lower s)
      else Inl (ValueError (''Invalid metric_type: '' @ s)))"
  by (auto simp: normalize_metric_type_def Let_def)

text \<open>
  Claim C7.  \<open>_normalize_metric_type\<close> looks only at the lower-cased name: \<open>euclidean\<close> and
  \<open>l2\<close> in any casing give \<open>l2\<close>, \<open>dot\<close> and \<open>cosine\<close> in any casing give the lower-cased
  name, and every other string raises \<open>ValueError\<close> (the spec's InvalidArgument) with the
  original string in the message.  Two names that differ only in case are accepted or
  rejected together, with the same result.  \<open>KMeans.__init__\<close> normalises first: on a
  rejected name it raises that error without having called the native constructor, and
  on an accepted one the native constructor receives the normalised name.
\<close>

theorem metric_type_normalized_before_native:
  "normalize_metric_type s =
     (if str_lower s = ''euclidean'' \<or> str_lower s = ''l2'' then Inr ''l2''
      else if str_lower s = ''dot'' \<or> str_lower s = ''cosine'' then Inr (str_lower s)
      else Inl (ValueError (''Invalid metric_type: '' @ s)))
   \<and> (str_lower s = str_lower t \<longrightarrow>
        (\<forall>m. normalize_metric_type s = Inr m \<longleftrightarrow> normalize_metric_type t = Inr m)
        \<and> (isl (normalize_metric_type s) \<longleftrightarrow> isl (normalize_metric_type t)))
   \<and> (\<forall>e. normalize_metric_type s = Inl e \<longrightarrow>
          KMeans_init native_KMeans n s max_iters centroids = (Inl e, []))
   \<and> (\<forall>m. normalize_metric_type s = Inr m \<longrightarrow>
          snd (KMeans_init native_KMeans n s max_iters centroids) = [(n, m, max_iters, centroids)])"
proof (intro conjI impI allI)
  show "normalize_metric_type s =
     (if str_lower s = ''euclidean'' \<or> str_lower s = ''l2'' then Inr ''l2''
      else if str_lower s = ''dot'' \<or> str_lower s = ''cosine'' then Inr (str_lower s)
      else Inl (ValueError (''Invalid metric_type: '' @ s)))"
    by (rule normalize_metric_type_eq)
next
  fix m assume "str_lower s = str_lower t"
  then show "normalize_metric_type s = Inr m \<longleftrightarrow> normalize_metric_type t = Inr m"
    by (simp add: normalize_metric_type_eq)
next
  assume "str_lower s = str_lower t"
  then show "isl (normalize_metric_type s) \<longleftrightarrow> isl (normalize_metric_type t)"
    by (simp add: normalize_metric_type_eq)
next
  fix e assume "normalize_metric_type s = Inl e"
  then show "KMeans_init native_KMeans n s max_iters centroids = (Inl e, [])"
    by (simp add: KMeans_init_def)
next
  fix m assume "normalize_metric_type s = Inr m"
  then show "snd (KMeans_init native_KMeans n s max_iters centroids) = [(n, m, max_iters, centroids)]"
    by (simp add: KMeans_init_def Let_def split: sum.splits)
qed

theorem metric_type_normalized_before_native_witness:
  "normalize_metric_type ''EUCLIDEAN'' = Inr ''l2''
   \<and> str_lower ''EUCLIDEAN'' = str_lower ''Euclidean''
   \<and> normalize_metric_type ''Euclidean'' = Inr ''l2''
   \<and> normalize_metric_type ''manhattan'' = Inl (ValueError ''Invalid metric_type: manhattan'')
   \<and> KMeans_init (\<lambda>_. Inr ()) 8 ''manhattan'' 50 (None :: unit option)
       = (Inl (ValueError ''Invalid metric_type: manhattan''), [])
   \<and> normalize_metric_type ''Cosine'' = Inr ''cosine''
   \<and> snd (KMeans_init (\<lambda>_. Inr ()) 8 ''Cosine'' 50 (None :: unit option))
       = [(8, ''cosine'', 50, None)]"
proof -
  have same: "str_lower ''EUCLIDEAN'' = str_lower ''Euclidean''"
    by code_simp
  have upper: "normalize_metric_type ''EUCLIDEAN'' = Inr ''l2''"
    by code_simp
  have bad: "normalize_metric_type ''manhattan'' = Inl (ValueError ''Invalid metric_type: manhattan'')"
    by code_simp
  have good: "normalize_metric_type ''Cosine'' = Inr ''cosine''"
    by code_simp
  have mixed: "normalize_metric_type ''Euclidean'' = Inr ''l2''"
    using metric_type_normalized_before_native
            [of "''EUCLIDEAN''" "''Euclidean''" "\<lambda>_. Inr ()" 8 50 "None :: unit option"]
          same upper
    by blast
  have rejected: "KMeans_init (\<lambda>_. Inr ()) 8 ''manhattan'' 50 (None :: unit option)
       = (Inl (ValueError ''Invalid metric_type: manhattan''), [])"
    using metric_type_normalized_before_native
            [of "''manhattan''" "''manhattan''" "\<lambda>_. Inr ()" 8 50 "None :: unit option"] bad
    by blast
  have accepted: "snd (KMeans_init (\<lambda>_. Inr ()) 8 ''Cosine'' 50 (None :: unit option))
       = [(8, ''cosine'', 50, None)]"
    using metric_type_normalized_before_native
            [of "''Cosine''" "''Cosine''" "\<lambda>_. Inr ()" 8 50 "None :: unit option"] good
    by blast
  from same upper bad good mixed rejected accepted show ?thesis
    by blast
qed

section \<open>Properties of the vector array normalizer\<close>

lemma from_arrays_exact:
  "0 < D \<Longrightarrow> length vals = N * D \<Longrightarrow>
   from_arrays vals D =
     Inr \<lparr>fsl_value_type = Float32, fsl_list_size = D, fsl_length = N, fsl_values = vals\<rparr>"
  by (simp add: from_arrays_def)

lemma from_arrays_float32:
  "from_arrays vals D = Inr r \<Longrightarrow> fsl_value_type r = Float32"
  by (auto simp: from_arrays_def split: if_splits)

lemma length_concat_batch:
  "is_batch D rows \<Longrightarrow> length (concat rows) = length rows * D"
  by (induction rows) (simp_all add: is_batch_def)

lemma from_arrays_error:
  "from_arrays vals D = Inl e \<Longrightarrow> \<exists>msg. e = ArrowInvalid msg"
  by (auto simp: from_arrays_def split: if_splits)

lemma to_fixed_size_list_error_kinds:
  assumes "to_fixed_size_list d = Inl e"
  shows "(\<exists>tn. e = fsl_type_error tn \<or> e = numpy_type_error tn)
       \<or> (\<exists>rank. e = tensor_shape_error rank \<or> e = numpy_shape_error rank)
       \<or> e = unsupported_error
       \<or> (\<exists>msg x. e = ArrowInvalid msg \<and> d = NdArray x \<and> length (nd_shape x) = 2
             \<and> nd_dtype x = Float32)"
proof (cases d)
  case (FixedSizeListArray a)
  with assms show ?thesis
    by (auto split: elem_type.splits)
next
  case (FixedShapeTensorArray t)
  with assms show ?thesis
    by (auto split: elem_type.splits if_splits)
next
  case (NdArray x)
  show ?thesis
  proof (cases "length (nd_shape x) = 2")
    case False
    with assms NdArray show ?thesis by auto
  next
    case True
    note rank = this
    show ?thesis
    proof (cases "nd_dtype x")
      case Float32
      with assms NdArray rank have "from_arrays (nd_data x) (nd_shape x ! 1) = Inl e"
        by simp
      then obtain msg where "e = ArrowInvalid msg"
        using from_arrays_error by blast
      with NdArray rank Float32 show ?thesis by blast
    next
      case (OtherType tn)
      with assms NdArray rank show ?thesis by auto
    qed
  qed
next
  case (OtherObject s)
  with assms show ?thesis by simp
qed

lemma to_fixed_size_list_float32:
  "to_fixed_size_list d = Inr r \<Longrightarrow> fsl_value_type r = Float32"
proof (cases d)
  case (FixedSizeListArray a)
  assume "to_fixed_size_list d = Inr r"
  with FixedSizeListArray show ?thesis
    by (auto split: elem_type.splits)
next
  case (FixedShapeTensorArray t)
  assume "to_fixed_size_list d = Inr r"
  with FixedShapeTensorArray show ?thesis
    by (auto split: elem_type.splits if_splits)
next
  case (NdArray x)
  assume "to_fixed_size_list d = Inr r"
  with NdArray show ?thesis
    by (auto split: elem_type.splits if_splits dest: from_arrays_float32)
next
  case (OtherObject s)
  assume "to_fixed_size_list d = Inr r"
  with OtherObject show ?thesis by simp
qed

text \<open>
  Claim C5, as amended.  For a batch of \<open>float32\<close> rows of one width \<open>D\<close> with at least
  one column, the normalizer returns the same fixed-size list array for the list-array
  representation, for the rank-1 tensor array wrapping it and for the 2-D numpy array of
  the same rows.  (Without columns the numpy representation is rejected by
  \<open>from_arrays\<close> while the other two pass: see the theorem after the witness.)
\<close>

theorem representations_agree:
  assumes "0 < D" and "is_batch D rows"
  shows "to_fixed_size_list (FixedSizeListArray (batch_fsl D rows)) = Inr (batch_fsl D rows)
       \<and> to_fixed_size_list (FixedShapeTensorArray (batch_tensor D rows)) = Inr (batch_fsl D rows)
       \<and> to_fixed_size_list (NdArray (batch_ndarray D rows)) = Inr (batch_fsl D rows)"
proof (intro conjI)
  show list: "to_fixed_size_list (FixedSizeListArray (batch_fsl D rows)) = Inr (batch_fsl D rows)"
    by (simp add: batch_fsl_def)
  show "to_fixed_size_list (FixedShapeTensorArray (batch_tensor D rows)) = Inr (batch_fsl D rows)"
    using list by (simp add: batch_tensor_def)
  have "length (concat rows) = length rows * D"
    using assms(2) by (rule length_concat_batch)
  with assms(1) show "to_fixed_size_list (NdArray (batch_ndarray D rows)) = Inr (batch_fsl D rows)"
    by (simp add: batch_ndarray_def batch_fsl_def from_arrays_exact)
qed

theorem representations_agree_witness:
  "(0::nat) < 2 \<and> is_batch 2 [[Finite 1, Finite 2], [NaN, Finite (1 / 2)], [PosInf, Finite 0]]
   \<and> to_fixed_size_list (FixedSizeListArray
        (batch_fsl 2 [[Finite 1, Finite 2], [NaN, Finite (1 / 2)], [PosInf, Finite 0]]))
      = Inr (batch_fsl 2 [[Finite 1, Finite 2], [NaN, Finite (1 / 2)], [PosInf, Finite 0]])
   \<and> to_fixed_size_list (FixedShapeTensorArray
        (batch_tensor 2 [[Finite 1, Finite 2], [NaN, Finite (1 / 2)], [PosInf, Finite 0]]))
      = Inr (batch_fsl 2 [[Finite 1, Finite 2], [NaN, Finite (1 / 2)], [PosInf, Finite 0]])
   \<and> to_fixed_size_list (NdArray
        (batch_ndarray 2 [[Finite 1, Finite 2], [NaN, Finite (1 / 2)], [PosInf, Finite 0]]))
      = Inr (batch_fsl 2 [[Finite 1, Finite 2], [NaN, Finite (1 / 2)], [PosInf, Finite 0]])"
proof -
  have pos: "(0::nat) < 2" by simp
  have shape: "is_batch 2 [[Finite 1, Finite 2], [NaN, Finite (1 / 2)], [PosInf, Finite 0]]"
    by (simp add: is_batch_def)
  from representations_agree [OF pos shape] pos shape show ?thesis
    by simp
qed

text \<open>
  The claim as stated fails for a batch of one row and no columns: the list array and
  the tensor array pass, the numpy array raises \<open>ArrowInvalid\<close>.
\<close>

theorem representations_disagree_without_columns:
  "is_batch 0 [[]]
   \<and> to_fixed_size_list (FixedSizeListArray (batch_fsl 0 [[]])) = Inr (batch_fsl 0 [[]])
   \<and> to_fixed_size_list (FixedShapeTensorArray (batch_tensor 0 [[]])) = Inr (batch_fsl 0 [[]])
   \<and> to_fixed_size_list (NdArray (batch_ndarray 0 [[]]))
      = Inl (ArrowInvalid ''list_size needs to be a strict positive integer'')"
  by (simp add: is_batch_def batch_fsl_def batch_tensor_def batch_ndarray_def from_arrays_def)

text \<open>
  Claim C6, as amended.  The checks apply in the order of the source.  A list array, or a
  tensor array of rank 1, whose value type is not \<open>float32\<close> raises the float32 message
  (the spec's TypeMismatch).  A tensor array whose shape is not 1-D raises the 1-D
  message and a numpy array whose rank is not 2 raises the 2-D message (ShapeError),
  whatever the element type.  A numpy array of rank 2 whose dtype is not \<open>float32\<close>
  raises the numpy float32 message (TypeMismatch).  Any other object raises the
  unsupported-data message (UnsupportedType), whatever it holds.  Every failure of the
  normalizer is one of these, or the \<open>ArrowInvalid\<close> of \<open>from_arrays\<close> on a rank-2
  \<open>float32\<close> numpy array.
\<close>

theorem normalizer_failures_in_source_order:
  "(fsl_value_type a = OtherType tn \<longrightarrow>
      to_fixed_size_list (FixedSizeListArray a) = Inl (fsl_type_error tn))
   \<and> (length (tensor_shape t) \<noteq> 1 \<longrightarrow>
      to_fixed_size_list (FixedShapeTensorArray t)
        = Inl (tensor_shape_error (length (tensor_shape t))))
   \<and> (length (tensor_shape t) = 1 \<and> fsl_value_type (tensor_storage t) = OtherType tn \<longrightarrow>
      to_fixed_size_list (FixedShapeTensorArray t) = Inl (fsl_type_error tn))
   \<and> (length (nd_shape x) \<noteq> 2 \<longrightarrow>
      to_fixed_size_list (NdArray x) = Inl (numpy_shape_error (length (nd_shape x))))
   \<and> (length (nd_shape x) = 2 \<and> nd_dtype x = OtherType tn \<longrightarrow>
      to_fixed_size_list (NdArray x) = Inl (numpy_type_error tn))
   \<and> to_fixed_size_list (OtherObject s) = Inl unsupported_error
   \<and> (to_fixed_size_list d = Inl e \<longrightarrow>
        (\<exists>tn. e = fsl_type_error tn \<or> e = numpy_type_error tn)
      \<or> (\<exists>rank. e = tensor_shape_error rank \<or> e = numpy_shape_error rank)
      \<or> e = unsupported_error
      \<or> (\<exists>msg x. e = ArrowInvalid msg \<and> d = NdArray x \<and> length (nd_shape x) = 2
            \<and> nd_dtype x = Float32))"
proof (intro conjI impI)
  assume "to_fixed_size_list d = Inl e"
  then show "(\<exists>tn. e = fsl_type_error tn \<or> e = numpy_type_error tn)
      \<or> (\<exists>rank. e = tensor_shape_error rank \<or> e = numpy_shape_error rank)
      \<or> e = unsupported_error
      \<or> (\<exists>msg x. e = ArrowInvalid msg \<and> d = NdArray x \<and> length (nd_shape x) = 2
            \<and> nd_dtype x = Float32)"
    by (rule to_fixed_size_list_error_kinds)
qed simp_all

theorem normalizer_failures_in_source_order_witness:
  "to_fixed_size_list (FixedSizeListArray
      \<lparr>fsl_value_type = OtherType ''double'', fsl_list_size = 2, fsl_length = 1,
       fsl_values = [Finite 1, Finite 2]\<rparr>) = Inl (fsl_type_error ''double'')
   \<and> to_fixed_size_list (FixedShapeTensorArray
      \<lparr>tensor_shape = [1, 2], tensor_storage =
         \<lparr>fsl_value_type = OtherType ''double'', fsl_list_size = 2, fsl_length = 1,
          fsl_values = [Finite 1, Finite 2]\<rparr>\<rparr>) = Inl (tensor_shape_error 2)
   \<and> to_fixed_size_list (FixedShapeTensorArray
      \<lparr>tensor_shape = [2], tensor_storage =
         \<lparr>fsl_value_type = OtherType ''double'', fsl_list_size = 2, fsl_length = 1,
          fsl_values = [Finite 1, Finite 2]\<rparr>\<rparr>) = Inl (fsl_type_error ''double'')
   \<and> to_fixed_size_list (NdArray
      \<lparr>nd_shape = [2], nd_dtype = Float32, nd_data = [Finite 1, Finite 2]\<rparr>)
        = Inl (numpy_shape_error 1)
   \<and> to_fixed_size_list (NdArray
      \<lparr>nd_shape = [1, 2], nd_dtype = OtherType ''int64'', nd_data = [Finite 1, Finite 2]\<rparr>)
        = Inl (numpy_type_error ''int64'')
   \<and> to_fixed_size_list (OtherObject ''list'') = Inl unsupported_error
   \<and> (\<exists>msg. to_fixed_size_list (NdArray \<lparr>nd_shape = [2, 0], nd_dtype = Float32, nd_data = []\<rparr>)
              = Inl (ArrowInvalid msg))"
proof -
  let ?a = "\<lparr>fsl_value_type = OtherType ''double'', fsl_list_size = 2, fsl_length = 1,
             fsl_values = [Finite 1, Finite 2]\<rparr>"
  let ?e = "ArrowInvalid ''list_size needs to be a strict positive integer''"
  have zero: "to_fixed_size_list (NdArray \<lparr>nd_shape = [2, 0], nd_dtype = Float32, nd_data = []\<rparr>)
                = Inl ?e"
    by (simp add: from_arrays_def)
  have distinct: "\<not> (\<exists>tn. ?e = fsl_type_error tn \<or> ?e = numpy_type_error tn)"
    "\<not> (\<exists>rank. ?e = tensor_shape_error rank \<or> ?e = numpy_shape_error rank)"
    "?e \<noteq> unsupported_error"
    by (simp_all add: fsl_type_error_def numpy_type_error_def tensor_shape_error_def
          numpy_shape_error_def unsupported_error_def)
  note first = normalizer_failures_in_source_order
      [of ?a "''double''" "\<lparr>tensor_shape = [1, 2], tensor_storage = ?a\<rparr>"
          "\<lparr>nd_shape = [2], nd_dtype = Float32, nd_data = [Finite 1, Finite 2]\<rparr>"
          "''list''"
          "NdArray \<lparr>nd_shape = [2, 0], nd_dtype = Float32, nd_data = []\<rparr>" ?e]
  note second = normalizer_failures_in_source_order
      [of ?a "''int64''" "\<lparr>tensor_shape = [2], tensor_storage = ?a\<rparr>"
          "\<lparr>nd_shape = [1, 2], nd_dtype = OtherType ''int64'', nd_data = [Finite 1, Finite 2]\<rparr>"
          "''list''" "OtherObject ''list''" unsupported_error]
  note third = normalizer_failures_in_source_order
      [of ?a "''double''" "\<lparr>tensor_shape = [2], tensor_storage = ?a\<rparr>"
          "\<lparr>nd_shape = [1, 2], nd_dtype = OtherType ''int64'', nd_data = [Finite 1, Finite 2]\<rparr>"
          "''list''" "OtherObject ''list''" unsupported_error]
  have c1: "to_fixed_size_list (FixedSizeListArray ?a) = Inl (fsl_type_error ''double'')"
    using first by simp
  have c2: "to_fixed_size_list (FixedShapeTensorArray \<lparr>tensor_shape = [1, 2], tensor_storage = ?a\<rparr>)
              = Inl (tensor_shape_error 2)"
    using first by (simp add: numeral_2_eq_2)
  have c3: "to_fixed_size_list (FixedShapeTensorArray \<lparr>tensor_shape = [2], tensor_storage = ?a\<rparr>)
              = Inl (fsl_type_error ''double'')"
    using third by simp
  have c4: "to_fixed_size_list (NdArray
      \<lparr>nd_shape = [2], nd_dtype = Float32, nd_data = [Finite 1, Finite 2]\<rparr>)
        = Inl (numpy_shape_error 1)"
    using first by simp
  have c5: "to_fixed_size_list (NdArray
      \<lparr>nd_shape = [1, 2], nd_dtype = OtherType ''int64'', nd_data = [Finite 1, Finite 2]\<rparr>)
        = Inl (numpy_type_error ''int64'')"
    using second by simp
  have c6: "to_fixed_size_list (OtherObject ''list'') = Inl unsupported_error"
    using first by simp
  have c7: "\<exists>msg. to_fixed_size_list (NdArray \<lparr>nd_shape = [2, 0], nd_dtype = Float32, nd_data = []\<rparr>)
              = Inl (ArrowInvalid msg)"
    using first zero distinct by blast
  from c1 c2 c3 c4 c5 c6 c7 show ?thesis by blast
qed

text \<open>
  The claim as stated fails for a \<open>float64\<close> numpy array of rank 3: the rank is checked
  first, so the error is the 2-D message and not the float32 one.
\<close>

theorem dtype_error_not_first:
  "to_fixed_size_list (NdArray
      \<lparr>nd_shape = [2, 2, 2], nd_dtype = OtherType ''float64'', nd_data = replicate 8 (Finite 0)\<rparr>)
     = Inl (ValueError ''Numpy array must be a 2-D array, got 3-D'')
   \<and> to_fixed_size_list (NdArray
      \<lparr>nd_shape = [2, 2, 2], nd_dtype = OtherType ''float64'', nd_data = replicate 8 (Finite 0)\<rparr>)
     \<noteq> Inl (numpy_type_error ''float64'')"
proof -
  have "str_nat 3 = ''3''" by code_simp
  then show ?thesis
    by (simp add: numpy_shape_error_def numpy_type_error_def numeral_3_eq_3)
qed

text \<open>
  Claim C8, as amended.  A \<open>float32\<close> numpy array of shape \<open>(N, D)\<close> with at least one
  column is rewrapped as a fixed-size list array of list width \<open>D\<close> and length \<open>N\<close> whose
  child values are the array's elements in row-major order, whatever those elements
  are; this holds for \<open>N = 0\<close> as well.  (Without columns the array is rejected, also
  when it has no rows: see the theorem after the witness.)
\<close>

theorem numpy_rows_rewrapped:
  assumes "nd_shape x = [N, D]" and "nd_dtype x = Float32" and "length (nd_data x) = N * D"
    and "0 < D"
  shows "to_fixed_size_list (NdArray x) =
           Inr \<lparr>fsl_value_type = Float32, fsl_list_size = D, fsl_length = N,
                fsl_values = nd_data x\<rparr>"
  using assms by (simp add: from_arrays_exact)

theorem numpy_rows_rewrapped_witness:
  "to_fixed_size_list (NdArray \<lparr>nd_shape = [0, 3], nd_dtype = Float32, nd_data = []\<rparr>) =
     Inr \<lparr>fsl_value_type = Float32, fsl_list_size = 3, fsl_length = 0, fsl_values = []\<rparr>
   \<and> to_fixed_size_list (NdArray \<lparr>nd_shape = [2, 3], nd_dtype = Float32,
         nd_data = [Finite 1, Finite 2, Finite 3, NaN, PosInf, Finite (- 1)]\<rparr>) =
     Inr \<lparr>fsl_value_type = Float32, fsl_list_size = 3, fsl_length = 2,
          fsl_values = [Finite 1, Finite 2, Finite 3, NaN, PosInf, Finite (- 1)]\<rparr>"
  using numpy_rows_rewrapped [of "\<lparr>nd_shape = [0, 3], nd_dtype = Float32, nd_data = []\<rparr>" 0 3]
        numpy_rows_rewrapped [of "\<lparr>nd_shape = [2, 3], nd_dtype = Float32,
         nd_data = [Finite 1, Finite 2, Finite 3, NaN, PosInf, Finite (- 1)]\<rparr>" 2 3]
  by simp

text \<open>
  The claim as stated fails for the empty \<open>float32\<close> array of shape \<open>(0, 0)\<close>.
\<close>

theorem empty_batch_without_columns_rejected:
  "to_fixed_size_list (NdArray \<lparr>nd_shape = [0, 0], nd_dtype = Float32, nd_data = []\<rparr>)
     = Inl (ArrowInvalid ''list_size needs to be a strict positive integer'')"
  by (simp add: from_arrays_def)

text \<open>
  Claim C9.  Whenever the normalizer succeeds, its result is a \<open>float32\<close> fixed-size list
  array, and normalising that result again returns it unchanged.
\<close>

theorem to_fixed_size_list_idempotent:
  "to_fixed_size_list d = Inr r \<Longrightarrow>
     fsl_value_type r = Float32 \<and> to_fixed_size_list (FixedSizeListArray r) = Inr r"
  using to_fixed_size_list_float32 [of d r] by simp

theorem to_fixed_size_list_idempotent_witness:
  "to_fixed_size_list (NdArray (batch_ndarray 2 [[Finite 1, NaN], [Finite 3, Finite 4]]))
     = Inr (batch_fsl 2 [[Finite 1, NaN], [Finite 3, Finite 4]])
   \<and> fsl_value_type (batch_fsl 2 [[Finite 1, NaN], [Finite 3, Finite 4]]) = Float32
   \<and> to_fixed_size_list (FixedSizeListArray (batch_fsl 2 [[Finite 1, NaN], [Finite 3, Finite 4]]))
     = Inr (batch_fsl 2 [[Finite 1, NaN], [Finite 3, Finite 4]])"
proof -
  have run: "to_fixed_size_list (NdArray (batch_ndarray 2 [[Finite 1, NaN], [Finite 3, Finite 4]]))
     = Inr (batch_fsl 2 [[Finite 1, NaN], [Finite 3, Finite 4]])"
    by (simp add: batch_ndarray_def batch_fsl_def from_arrays_def)
  from to_fixed_size_list_idempotent [OF run] run show ?thesis
    by simp
qed

section \<open>Properties of true division\<close>

lemma round_half_even_cases:
  "round_half_even x = \<lfloor>x\<rfloor> \<or> round_half_even x = \<lfloor>x\<rfloor> + 1"
  by (simp add: round_half_even_def Let_def)

lemma round_half_even_le: "rat_of_int (round_half_even x) \<le> x + 1"
proof -
  have "rat_of_int \<lfloor>x\<rfloor> \<le> x" by simp
  with round_half_even_cases [of x] show ?thesis
    by (elim disjE) (simp_all, linarith)
qed

lemma round_half_even_nonneg: "0 \<le> x \<Longrightarrow> 0 \<le> round_half_even x"
proof -
  assume "0 \<le> x"
  then have "0 \<le> \<lfloor>x\<rfloor>" by simp
  with round_half_even_cases [of x] show ?thesis
    by (elim disjE) simp_all
qed

lemma ilog2_le_zero:
  assumes "0 < q" and "q \<le> 1"
  shows "ilog2 q \<le> 0"
proof -
  obtain a b where ab: "quotient_of q = (a, b)"
    by (cases "quotient_of q")
  then have b: "0 < b" and q: "q = rat_of_int a / rat_of_int b"
    by (auto dest: quotient_of_denom_pos quotient_of_div)
  from q b assms(2) have "rat_of_int a \<le> rat_of_int b"
    by (simp add: divide_le_eq)
  then have "a \<le> b" by simp
  also from b have "b < 2 ^ nat (bitlen b)"
    using bitlen_bounds by blast
  finally have "bitlen a \<le> bitlen b"
    by (simp add: bitlen_le_iff_power bitlen_nonneg)
  then show ?thesis
    using ab by (simp add: ilog2_def Let_def)
qed

lemma round_double_unit_interval:
  assumes "0 \<le> q" and "q \<le> 1"
  shows "0 \<le> round_double q \<and> round_double q \<le> 2"
proof (cases "q = 0")
  case True
  then show ?thesis by (simp add: round_double_def)
next
  case False
  with assms(1) have pos: "0 < q" by simp
  define u :: rat where "u = 2 powi (max (ilog2 q) (- 1022) - 52)"
  have u_pos: "0 < u" by (simp add: u_def)
  have rd: "round_double q = rat_of_int (round_half_even (q / u)) * u"
    using pos by (simp add: round_double_def Let_def u_def)
  from pos u_pos have "0 \<le> q / u" by simp
  then have "0 \<le> round_half_even (q / u)" by (rule round_half_even_nonneg)
  with u_pos have lower: "0 \<le> round_double q"
    by (simp add: rd)
  from pos assms(2) have "ilog2 q \<le> 0" by (rule ilog2_le_zero)
  then have "max (ilog2 q) (- 1022) - 52 \<le> 0" by simp
  then have "u \<le> 2 powi 0"
    unfolding u_def by (intro power_int_increasing) simp_all
  then have u_le: "u \<le> 1" by simp
  have "rat_of_int (round_half_even (q / u)) \<le> q / u + 1"
    by (rule round_half_even_le)
  then have "rat_of_int (round_half_even (q / u)) * u \<le> (q / u + 1) * u"
    using u_pos by (simp add: mult_right_mono)
  also have "\<dots> = q + u"
    using u_pos by (simp add: distrib_right)
  also have "\<dots> \<le> 2"
    using u_le assms(2) by simp
  finally have "round_double q \<le> 2"
    by (simp add: rd)
  with lower show ?thesis ..
qed

lemma py_truediv_fraction:
  assumes "0 \<le> a" and "a \<le> b" and "0 < b"
  shows "py_truediv a b = Inr (Finite (round_double (rat_of_int a / rat_of_int b)))"
proof -
  let ?q = "rat_of_int a / rat_of_int b"
  from assms have "0 \<le> ?q" and "?q \<le> 1"
    by (simp_all add: divide_le_eq)
  then have "0 \<le> round_double ?q \<and> round_double ?q \<le> 2"
    by (rule round_double_unit_interval)
  moreover have "(2::rat) ^ 1 \<le> 2 ^ 1023"
    by (rule power_increasing) simp_all
  then have "(2::rat) < 2 ^ 1024"
    by simp
  ultimately have "\<not> 2 ^ 1024 \<le> \<bar>round_double ?q\<bar>"
    by linarith
  with assms(3) show ?thesis
    by (simp add: py_truediv_def Let_def)
qed

lemma py_truediv_zero: "py_truediv a 0 = Inl ZeroDivisionError"
  by (simp add: py_truediv_def)

section \<open>Properties of the index recall validator\<close>

lemma validate_loop_skips_nan:
  "validate_loop ds col rf vecs passes tot qs =
     validate_loop ds col rf (filter (\<lambda>v. \<not> has_nan v) vecs) passes
       (tot - int (length (filter has_nan vecs))) qs"
proof (induction vecs arbitrary: passes tot qs)
  case Nil
  show ?case by simp
next
  case (Cons v vecs)
  show ?case
  proof (cases "has_nan v")
    case True
    then show ?thesis
      using Cons.IH [of passes "tot - 1" qs] by (simp add: algebra_simps)
  next
    case False
    then show ?thesis
      using Cons.IH by (simp split: sum.splits)
  qed
qed

lemma validate_loop_same_index:
  assumes "ds_nearest ds' = ds_nearest ds"
  shows "validate_loop ds' col rf vecs passes tot qs = validate_loop ds col rf vecs passes tot qs"
proof -
  have same: "top1_distance ds' col rf v = top1_distance ds col rf v" for v
    using assms by (simp add: top1_distance_def)
  show ?thesis
    by (induction vecs arbitrary: passes tot qs) (simp_all add: same split: sum.splits)
qed

lemma validate_loop_queries_clean:
  "list_all (\<lambda>nq. \<not> has_nan (nn_q nq)) qs \<Longrightarrow>
   list_all (\<lambda>nq. \<not> has_nan (nn_q nq)) (snd (validate_loop ds col rf vecs passes tot qs))"
proof (induction vecs arbitrary: passes tot qs)
  case Nil
  then show ?case by simp
next
  case (Cons v vecs)
  show ?case
  proof (cases "has_nan v")
    case True
    with Cons show ?thesis by simp
  next
    case False
    with Cons.prems have "list_all (\<lambda>nq. \<not> has_nan (nn_q nq)) (qs @ [nearest_query col v rf])"
      by (simp add: nearest_query_def)
    with False Cons.IH show ?thesis
      by (simp split: sum.splits)
  qed
qed

lemma validate_loop_answered:
  "answered ds col rf vecs \<Longrightarrow>
   validate_loop ds col rf vecs passes tot qs =
     (Inr (passes + int (length (filter (row_passes ds col rf) (filter (\<lambda>v. \<not> has_nan v) vecs))),
           tot - int (length (filter has_nan vecs))),
      qs @ map (\<lambda>v. nearest_query col v rf) (filter (\<lambda>v. \<not> has_nan v) vecs))"
proof (induction vecs arbitrary: passes tot qs)
  case Nil
  show ?case by simp
next
  case (Cons v vecs)
  from Cons.prems have rest: "answered ds col rf vecs"
    by (simp add: answered_def)
  show ?case
  proof (cases "has_nan v")
    case True
    then show ?thesis
      using Cons.IH [OF rest, of passes "tot - 1" qs] by (simp add: algebra_simps)
  next
    case False
    with Cons.prems obtain d where d: "top1_distance ds col rf v = Inr d"
      by (cases "top1_distance ds col rf v") (auto simp: answered_def)
    show ?thesis
      using False d Cons.IH [OF rest] by (simp add: row_passes_def)
  qed
qed

lemma validate_vector_index_unfold:
  "validate_vector_index ds col rf ss thr =
     (case column_rows ds ss col of
        None \<Rightarrow> (Inl (KeyError col), [])
      | Some vecs \<Rightarrow>
          (case validate_loop ds col rf vecs 0 (int (length vecs)) [] of
             (Inl e, qs) \<Rightarrow> (Inl e, qs)
           | (Inr (passes, tot), qs) \<Rightarrow>
               (case py_truediv passes tot of
                  Inl e \<Rightarrow> (Inl e, qs)
                | Inr rate \<Rightarrow>
                    if float_lt rate thr
                    then (Inl (sanity_check_error passes tot), qs)
                    else (Inr (), qs))))"
  by (simp add: validate_vector_index_def column_rows_def Let_def)

lemma column_rows_without_nan:
  "column_rows (without_nan_rows ds) ss col =
     map_option (filter (\<lambda>v. \<not> has_nan v)) (column_rows ds ss col)"
  by (simp add: column_rows_def without_nan_rows_def drop_nan_rows_def split: option.splits)

lemma length_without_nan:
  "int (length (filter (\<lambda>v. \<not> has_nan v) vecs)) =
     int (length vecs) - int (length (filter has_nan vecs))"
  using sum_length_filter_compl [of has_nan vecs] by linarith

lemma epsilon_value: "epsilon = Finite (4722366482869645 / 4722366482869645213696)"
  unfolding epsilon_def by code_simp

lemma row_passes_iff:
  "row_passes ds col rf v \<longleftrightarrow>
     (\<exists>d rest. ds_nearest ds
         \<lparr>nn_column = col, nn_q = v, nn_k = 1, nn_nprobes = 1, nn_refine_factor = rf\<rparr>
           = Inr (d # rest)
        \<and> float_lt (float_abs d) (Finite (4722366482869645 / 4722366482869645213696)))"
  by (auto simp: row_passes_def top1_distance_def nearest_query_def epsilon_value
           split: sum.splits list.splits)

lemma filter_clean_passes:
  "filter (row_passes ds col rf) (filter (\<lambda>v. \<not> has_nan v) vecs)
     = filter (\<lambda>v. \<not> has_nan v \<and> row_passes ds col rf v) vecs"
  by (induction vecs) auto

lemma validate_loop_run:
  assumes "answered ds col rf vecs"
  shows "validate_loop ds col rf vecs 0 (int (length vecs)) [] =
     (Inr (int (length (filter (\<lambda>v. \<not> has_nan v \<and> row_passes ds col rf v) vecs)),
           int (length (filter (\<lambda>v. \<not> has_nan v) vecs))),
      map (\<lambda>v. nearest_query col v rf) (filter (\<lambda>v. \<not> has_nan v) vecs))"
  using validate_loop_answered [OF assms, of 0 "int (length vecs)" "[]"]
  by (simp add: filter_clean_passes length_without_nan)

lemma validate_loop_first_clean_row_fails:
  assumes "dropWhile has_nan vecs = v # rest" and "top1_distance ds col rf v = Inl e"
  shows "validate_loop ds col rf vecs passes tot qs = (Inl e, qs @ [nearest_query col v rf])"
  using assms(1)
proof (induction vecs arbitrary: tot)
  case Nil
  then show ?case by simp
next
  case (Cons w ws)
  show ?case
  proof (cases "has_nan w")
    case True
    with Cons show ?thesis by simp
  next
    case False
    with Cons.prems have "w = v" by simp
    with False assms(2) show ?thesis by simp
  qed
qed

lemma validate_all_nan:
  assumes "column_rows ds ss col = Some vecs" and "list_all has_nan vecs"
  shows "validate_vector_index ds col rf ss thr = (Inl ZeroDivisionError, [])"
proof -
  from assms(2) have none: "filter (\<lambda>v. \<not> has_nan v) vecs = []"
    by (simp add: filter_empty_conv list_all_iff)
  from assms(2) have "answered ds col rf vecs"
    by (simp add: answered_def list_all_iff)
  from validate_loop_run [OF this] none
  have "validate_loop ds col rf vecs 0 (int (length vecs)) [] = (Inr (0, 0), [])"
    by (simp add: filter_clean_passes [symmetric])
  with assms(1) show ?thesis
    by (simp add: validate_vector_index_unfold py_truediv_zero)
qed

lemma example_column: "column_rows example_dataset None ''vector'' = Some example_rows"
  by (simp add: column_rows_def example_dataset_def)

lemma example_answered: "answered example_dataset ''vector'' 5 example_rows"
  by code_simp

lemma example_clean: "filter (\<lambda>v. \<not> has_nan v) example_rows = [[Finite (1 / 2), Finite 2], [Finite 3, Finite 3]]"
  by code_simp

lemma example_passing:
  "filter (\<lambda>v. \<not> has_nan v \<and> row_passes example_dataset ''vector'' 5 v) example_rows
     = [[Finite (1 / 2), Finite 2]]"
  by code_simp

lemma example_rate: "Finite (1 / 2) = Finite (round_double (rat_of_int 1 / rat_of_int 2))"
  by code_simp

lemma str_int_1_2: "str_int 1 = ''1''" "str_int 2 = ''2''"
  by code_simp+

text \<open>
  Claim C3.  A run behaves exactly as it would on the dataset without the rows that hold
  a NaN element: same outcome and same queries, so such rows count neither in \<open>passes\<close>
  nor in \<open>total\<close>.  No query of a run carries a vector with a NaN element.  In the loop
  itself, running over the rows is running over the NaN-free rows with \<open>total\<close> lowered by
  the number of rows that hold a NaN.
\<close>

theorem nan_rows_never_counted:
  "validate_vector_index ds col rf ss thr = validate_vector_index (without_nan_rows ds) col rf ss thr
   \<and> list_all (\<lambda>nq. \<not> has_nan (nn_q nq)) (snd (validate_vector_index ds col rf ss thr))
   \<and> validate_loop ds col rf vecs passes tot qs =
       validate_loop ds col rf (filter (\<lambda>v. \<not> has_nan v) vecs) passes
         (tot - int (length (filter has_nan vecs))) qs"
proof (intro conjI)
  have index: "ds_nearest (without_nan_rows ds) = ds_nearest ds"
    by (simp add: without_nan_rows_def)
  show "validate_vector_index ds col rf ss thr
          = validate_vector_index (without_nan_rows ds) col rf ss thr"
  proof (cases "column_rows ds ss col")
    case None
    then show ?thesis
      by (simp add: validate_vector_index_unfold column_rows_without_nan)
  next
    case (Some rows)
    have "validate_loop ds col rf rows 0 (int (length rows)) [] =
          validate_loop (without_nan_rows ds) col rf (filter (\<lambda>v. \<not> has_nan v) rows) 0
            (int (length (filter (\<lambda>v. \<not> has_nan v) rows))) []"
      by (simp add: validate_loop_same_index [OF index] length_without_nan
            validate_loop_skips_nan [of ds col rf rows])
    with Some show ?thesis
      by (simp add: validate_vector_index_unfold column_rows_without_nan)
  qed
next
  show "list_all (\<lambda>nq. \<not> has_nan (nn_q nq)) (snd (validate_vector_index ds col rf ss thr))"
  proof (cases "column_rows ds ss col")
    case None
    then show ?thesis
      by (simp add: validate_vector_index_unfold)
  next
    case (Some rows)
    have "list_all (\<lambda>nq. \<not> has_nan (nn_q nq))
            (snd (validate_loop ds col rf rows 0 (int (length rows)) []))"
      by (rule validate_loop_queries_clean) simp
    moreover have "snd (validate_vector_index ds col rf ss thr)
                     = snd (validate_loop ds col rf rows 0 (int (length rows)) [])"
      using Some by (simp add: validate_vector_index_unfold split: prod.splits sum.splits)
    ultimately show ?thesis by simp
  qed
next
  show "validate_loop ds col rf vecs passes tot qs =
       validate_loop ds col rf (filter (\<lambda>v. \<not> has_nan v) vecs) passes
         (tot - int (length (filter has_nan vecs))) qs"
    by (rule validate_loop_skips_nan)
qed

text \<open>
  Claim C4.  When every query is answered, the loop issues one query per NaN-free row, in
  row order, each with that row as \<open>q\<close>, the column, \<open>k = 1\<close>, \<open>nprobes = 1\<close> and the caller's
  \<open>refine_factor\<close>; these are the queries of the whole call.  It ends with \<open>passes\<close> the
  number of NaN-free rows that pass and \<open>total\<close> the number of NaN-free rows.  A row passes
  exactly when its query returns a first distance \<open>d\<close> with \<open>abs(d) < 1e-6\<close>, where \<open>1e-6\<close>
  is the fixed double \<open>4722366482869645 / 2^72\<close>: no parameter of the function changes
  it.
\<close>

theorem one_query_per_clean_row:
  assumes "column_rows ds ss col = Some vecs" and "answered ds col rf vecs"
  shows "validate_loop ds col rf vecs 0 (int (length vecs)) [] =
     (Inr (int (length (filter (\<lambda>v. \<not> has_nan v \<and> row_passes ds col rf v) vecs)),
           int (length (filter (\<lambda>v. \<not> has_nan v) vecs))),
      map (\<lambda>v. \<lparr>nn_column = col, nn_q = v, nn_k = 1, nn_nprobes = 1, nn_refine_factor = rf\<rparr>)
          (filter (\<lambda>v. \<not> has_nan v) vecs))
   \<and> snd (validate_vector_index ds col rf ss thr) =
       map (\<lambda>v. \<lparr>nn_column = col, nn_q = v, nn_k = 1, nn_nprobes = 1, nn_refine_factor = rf\<rparr>)
          (filter (\<lambda>v. \<not> has_nan v) vecs)
   \<and> (\<forall>v. row_passes ds col rf v \<longleftrightarrow>
        (\<exists>d rest. ds_nearest ds
            \<lparr>nn_column = col, nn_q = v, nn_k = 1, nn_nprobes = 1, nn_refine_factor = rf\<rparr>
              = Inr (d # rest)
           \<and> float_lt (float_abs d) (Finite (4722366482869645 / 4722366482869645213696))))"
proof (intro conjI allI)
  have run: "validate_loop ds col rf vecs 0 (int (length vecs)) [] =
     (Inr (int (length (filter (\<lambda>v. \<not> has_nan v \<and> row_passes ds col rf v) vecs)),
           int (length (filter (\<lambda>v. \<not> has_nan v) vecs))),
      map (\<lambda>v. nearest_query col v rf) (filter (\<lambda>v. \<not> has_nan v) vecs))"
    using assms(2) by (rule validate_loop_run)
  then show "validate_loop ds col rf vecs 0 (int (length vecs)) [] =
     (Inr (int (length (filter (\<lambda>v. \<not> has_nan v \<and> row_passes ds col rf v) vecs)),
           int (length (filter (\<lambda>v. \<not> has_nan v) vecs))),
      map (\<lambda>v. \<lparr>nn_column = col, nn_q = v, nn_k = 1, nn_nprobes = 1, nn_refine_factor = rf\<rparr>)
          (filter (\<lambda>v. \<not> has_nan v) vecs))"
    by (simp add: nearest_query_def)
  have "snd (validate_vector_index ds col rf ss thr)
          = snd (validate_loop ds col rf vecs 0 (int (length vecs)) [])"
    using assms(1) by (simp add: validate_vector_index_unfold split: prod.splits sum.splits)
  with run show "snd (validate_vector_index ds col rf ss thr) =
       map (\<lambda>v. \<lparr>nn_column = col, nn_q = v, nn_k = 1, nn_nprobes = 1, nn_refine_factor = rf\<rparr>)
          (filter (\<lambda>v. \<not> has_nan v) vecs)"
    by (simp add: nearest_query_def)
next
  fix v
  show "row_passes ds col rf v \<longleftrightarrow>
        (\<exists>d rest. ds_nearest ds
            \<lparr>nn_column = col, nn_q = v, nn_k = 1, nn_nprobes = 1, nn_refine_factor = rf\<rparr>
              = Inr (d # rest)
           \<and> float_lt (float_abs d) (Finite (4722366482869645 / 4722366482869645213696)))"
    by (rule row_passes_iff)
qed

theorem one_query_per_clean_row_witness:
  "column_rows example_dataset None ''vector'' = Some example_rows
   \<and> answered example_dataset ''vector'' 5 example_rows
   \<and> validate_loop example_dataset ''vector'' 5 example_rows 0 (int (length example_rows)) [] =
       (Inr (1, 2),
        [\<lparr>nn_column = ''vector'', nn_q = [Finite (1 / 2), Finite 2], nn_k = 1, nn_nprobes = 1,
          nn_refine_factor = 5\<rparr>,
         \<lparr>nn_column = ''vector'', nn_q = [Finite 3, Finite 3], nn_k = 1, nn_nprobes = 1,
          nn_refine_factor = 5\<rparr>])
   \<and> snd (validate_vector_index example_dataset ''vector'' 5 None (Finite 1)) =
        [\<lparr>nn_column = ''vector'', nn_q = [Finite (1 / 2), Finite 2], nn_k = 1, nn_nprobes = 1,
          nn_refine_factor = 5\<rparr>,
         \<lparr>nn_column = ''vector'', nn_q = [Finite 3, Finite 3], nn_k = 1, nn_nprobes = 1,
          nn_refine_factor = 5\<rparr>]"
  using one_query_per_clean_row [OF example_column example_answered, of "Finite 1"]
        example_column example_answered
  by (simp add: example_clean example_passing)

text \<open>
  Claim C2.  In a run over a column with at least one row free of NaN, whose queries are
  all answered, let \<open>passes\<close> be the number of NaN-free rows that pass, \<open>total\<close> the number
  of NaN-free rows and \<open>rate\<close> the float \<open>passes / total\<close>.  The division succeeds, and
  the call raises the sanity-check \<open>ValueError\<close> (the spec's AccuracyError), whose message
  holds \<open>passes\<close> and \<open>total\<close> in decimal, exactly when \<open>rate < pass_threshold\<close>;
  otherwise it returns \<open>None\<close>.  In particular it returns \<open>None\<close> when the rate equals the
  threshold.
\<close>

theorem threshold_decides:
  assumes "column_rows ds ss col = Some vecs"
    and "answered ds col rf vecs"
    and "list_ex (\<lambda>v. \<not> has_nan v) vecs"
    and "passes = int (length (filter (\<lambda>v. \<not> has_nan v \<and> row_passes ds col rf v) vecs))"
    and "tot = int (length (filter (\<lambda>v. \<not> has_nan v) vecs))"
    and "rate = Finite (round_double (rat_of_int passes / rat_of_int tot))"
  shows "fst (validate_vector_index ds col rf ss thr) =
           (if float_lt rate thr
            then Inl (ValueError (''Vector index failed sanity check, only '' @ str_int passes
                                  @ ''/'' @ str_int tot @ '' passed''))
            else Inr ())
       \<and> (thr = rate \<longrightarrow> fst (validate_vector_index ds col rf ss thr) = Inr ())
       \<and> py_truediv passes tot = Inr rate \<and> 0 < tot"
proof -
  have run: "validate_loop ds col rf vecs 0 (int (length vecs)) [] =
     (Inr (passes, tot), map (\<lambda>v. nearest_query col v rf) (filter (\<lambda>v. \<not> has_nan v) vecs))"
    using validate_loop_run [OF assms(2)] assms(4,5) by simp
  from assms(3) have "filter (\<lambda>v. \<not> has_nan v) vecs \<noteq> []"
    by (simp add: filter_empty_conv list_ex_iff)
  with assms(5) have tot: "0 < tot" by simp
  have "length (filter (\<lambda>v. \<not> has_nan v \<and> row_passes ds col rf v) vecs)
          \<le> length (filter (\<lambda>v. \<not> has_nan v) vecs)"
    using length_filter_le [of "row_passes ds col rf" "filter (\<lambda>v. \<not> has_nan v) vecs"]
    by (simp add: filter_clean_passes)
  with assms(4,5) have le: "passes \<le> tot" and nonneg: "0 \<le> passes" by simp_all
  have div: "py_truediv passes tot = Inr rate"
    using py_truediv_fraction [OF nonneg le tot] assms(6) by simp
  have main: "fst (validate_vector_index ds col rf ss thr) =
           (if float_lt rate thr
            then Inl (ValueError (''Vector index failed sanity check, only '' @ str_int passes
                                  @ ''/'' @ str_int tot @ '' passed''))
            else Inr ())"
    using assms(1) run div
    by (simp add: validate_vector_index_unfold sanity_check_error_def)
  have "\<not> float_lt rate rate"
    using assms(6) by simp
  with main have "thr = rate \<longrightarrow> fst (validate_vector_index ds col rf ss thr) = Inr ()"
    by auto
  with main div tot show ?thesis by blast
qed

theorem threshold_decides_witness:
  "column_rows example_dataset None ''vector'' = Some example_rows
   \<and> answered example_dataset ''vector'' 5 example_rows
   \<and> list_ex (\<lambda>v. \<not> has_nan v) example_rows
   \<and> fst (validate_vector_index example_dataset ''vector'' 5 None (Finite 1)) =
       Inl (ValueError ''Vector index failed sanity check, only 1/2 passed'')
   \<and> fst (validate_vector_index example_dataset ''vector'' 5 None (Finite (1 / 2))) = Inr ()
   \<and> py_truediv 1 2 = Inr (Finite (1 / 2))"
proof -
  have some: "list_ex (\<lambda>v. \<not> has_nan v) example_rows"
    by code_simp
  have passes: "(1::int) =
      int (length (filter (\<lambda>v. \<not> has_nan v \<and> row_passes example_dataset ''vector'' 5 v)
                     example_rows))"
    by (simp add: example_passing)
  have tot: "(2::int) = int (length (filter (\<lambda>v. \<not> has_nan v) example_rows))"
    by (simp add: example_clean)
  note strict = threshold_decides
      [OF example_column example_answered some passes tot example_rate, of "Finite 1"]
  note boundary = threshold_decides
      [OF example_column example_answered some passes tot example_rate, of "Finite (1 / 2)"]
  from strict have "fst (validate_vector_index example_dataset ''vector'' 5 None (Finite 1)) =
       Inl (ValueError ''Vector index failed sanity check, only 1/2 passed'')"
    by (simp add: str_int_1_2)
  moreover from boundary
  have "fst (validate_vector_index example_dataset ''vector'' 5 None (Finite (1 / 2))) = Inr ()"
    by simp
  moreover from strict have "py_truediv 1 2 = Inr (Finite (1 / 2))"
    by simp
  ultimately show ?thesis
    using example_column example_answered some by blast
qed

text \<open>
  Claim C10.  If the query for the first NaN-free row returns an empty result, the call
  raises \<open>IndexError\<close> from the unguarded \<open>[0]\<close>, after that one query; it is not the
  sanity-check \<open>ValueError\<close>, and the row is not counted as a failure.
\<close>

theorem empty_result_raises_index_error:
  assumes "column_rows ds ss col = Some vecs"
    and "dropWhile has_nan vecs = v # rest"
    and "ds_nearest ds (nearest_query col v rf) = Inr []"
  shows "validate_vector_index ds col rf ss thr = (Inl IndexError, [nearest_query col v rf])
       \<and> (\<forall>passes tot. fst (validate_vector_index ds col rf ss thr)
                         \<noteq> Inl (sanity_check_error passes tot))"
proof -
  from assms(3) have "top1_distance ds col rf v = Inl IndexError"
    by (simp add: top1_distance_def)
  with assms(2) have "validate_loop ds col rf vecs 0 (int (length vecs)) []
                        = (Inl IndexError, [] @ [nearest_query col v rf])"
    by (rule validate_loop_first_clean_row_fails)
  with assms(1) have "validate_vector_index ds col rf ss thr
                        = (Inl IndexError, [nearest_query col v rf])"
    by (simp add: validate_vector_index_unfold)
  then show ?thesis
    by (simp add: sanity_check_error_def)
qed

theorem empty_result_raises_index_error_witness:
  "column_rows silent_dataset None ''vector'' = Some example_rows
   \<and> dropWhile has_nan example_rows = [Finite (1 / 2), Finite 2] # [[Finite 3, Finite 3]]
   \<and> ds_nearest silent_dataset (nearest_query ''vector'' [Finite (1 / 2), Finite 2] 5) = Inr []
   \<and> validate_vector_index silent_dataset ''vector'' 5 None (Finite 0)
       = (Inl IndexError, [nearest_query ''vector'' [Finite (1 / 2), Finite 2] 5])"
proof -
  have col: "column_rows silent_dataset None ''vector'' = Some example_rows"
    by (simp add: column_rows_def silent_dataset_def)
  have first: "dropWhile has_nan example_rows
                 = [Finite (1 / 2), Finite 2] # [[Finite 3, Finite 3]]"
    by code_simp
  have empty: "ds_nearest silent_dataset (nearest_query ''vector'' [Finite (1 / 2), Finite 2] 5)
                 = Inr []"
    by (simp add: silent_dataset_def)
  from empty_result_raises_index_error [OF col first empty, of "Finite 0"] col first empty
  show ?thesis by blast
qed

text \<open>
  Claim C1 asks for the sanity-check \<open>ValueError\<close> when every row holds a NaN.  The code
  does something else: the loop skips every row, \<open>total\<close> reaches 0, and the unguarded
  \<open>passes / total\<close> raises \<open>ZeroDivisionError\<close> before any comparison with the threshold;
  no query is issued.
\<close>

theorem all_nan_rows_divide_by_zero:
  assumes "column_rows ds ss col = Some vecs" and "list_all has_nan vecs"
  shows "validate_vector_index ds col rf ss thr = (Inl ZeroDivisionError, [])"
  using assms by (rule validate_all_nan)

theorem all_nan_rows_divide_by_zero_witness:
  "column_rows nan_dataset None ''vector'' = Some nan_rows
   \<and> list_all has_nan nan_rows
   \<and> validate_vector_index nan_dataset ''vector'' 5 None (Finite 1) = (Inl ZeroDivisionError, [])"
proof -
  have col: "column_rows nan_dataset None ''vector'' = Some nan_rows"
    by (simp add: column_rows_def nan_dataset_def)
  have nan: "list_all has_nan nan_rows"
    by code_simp
  from all_nan_rows_divide_by_zero [OF col nan, of 5 "Finite 1"] col nan
  show ?thesis by blast
qed

end
